theory Spec2Isabelle
  imports Main "HOL-Library.Word"
begin

section \<open>JavaScript strings\<close>

text \<open>
  A JavaScript string is a sequence of 16-bit code units; \<open>length\<close>, \<open>substring\<close> and
  the selection offsets of a text control all count code units. The string literals of
  \<^verbatim>\<open>Editor.js\<close> are ASCII and are written \<open>js ''...''\<close>.
\<close>

type_synonym code_unit = "16 word"
type_synonym jsstring = "code_unit list"

definition js :: "string \<Rightarrow> jsstring" where
  "js cs = map of_char cs"

text \<open>\<^verbatim>\<open>a || b\<close> on strings: the empty string is the only falsy string.\<close>

definition or_else :: "jsstring \<Rightarrow> jsstring \<Rightarrow> jsstring" where
  "or_else a b = (if a = [] then b else a)"

text \<open>
  \<^verbatim>\<open>String.prototype.substring(start, end)\<close>: both arguments are clamped to the length
  of the string and swapped when \<open>start\<close> is the larger one; it never throws.
  \<^verbatim>\<open>substring(start)\<close> runs to the end of the string.
\<close>

definition substring :: "jsstring \<Rightarrow> nat \<Rightarrow> nat \<Rightarrow> jsstring" where
  "substring str start end =
     (let len = length str;
          finalStart = min start len;
          finalEnd = min end len;
          from = min finalStart finalEnd;
          to = max finalStart finalEnd
      in take (to - from) (drop from str))"

definition substring_from :: "jsstring \<Rightarrow> nat \<Rightarrow> jsstring" where
  "substring_from str start = drop (min start (length str)) str"

text \<open>
  \<^verbatim>\<open>String.prototype.trim()\<close> removes the white space and line terminator code units of
  ECMAScript from both ends.
\<close>

definition is_white_space :: "code_unit \<Rightarrow> bool" where
  "is_white_space c =
     (c \<in> set [0x0009, 0x000A, 0x000B, 0x000C, 0x000D, 0x0020, 0x00A0, 0x1680,
               0x2000, 0x2001, 0x2002, 0x2003, 0x2004, 0x2005, 0x2006, 0x2007,
               0x2008, 0x2009, 0x200A, 0x2028, 0x2029, 0x202F, 0x205F, 0x3000,
               0xFEFF])"

definition trim :: "jsstring \<Rightarrow> jsstring" where
  "trim str = rev (dropWhile is_white_space (rev (dropWhile is_white_space str)))"

text \<open>A string is blank when it is empty or holds white space only.\<close>

definition blank :: "jsstring \<Rightarrow> bool" where
  "blank str = list_all is_white_space str"

section \<open>Data of the editor\<close>

text \<open>
  The text control behind \<^verbatim>\<open>textareaRef\<close>: its value and its selection offsets
  (unsigned, in code units), and whether it holds the focus. A browser keeps the selection
  inside the value: \<open>selectionStart \<le> selectionEnd \<le> length value\<close>.
\<close>

record textarea =
  ta_value :: jsstring
  selectionStart :: nat
  selectionEnd :: nat
  focused :: bool

text \<open>A media reference is the opaque result object of an upload call.\<close>

datatype media_ref = MediaRef nat

record file_obj =
  file_type :: jsstring
  file_data :: nat

text \<open>The \<^verbatim>\<open>content\<close> object handed to the content protocol client.\<close>

record content =
  c_title :: jsstring
  c_body :: jsstring
  c_context :: jsstring
  c_media :: "media_ref list"

text \<open>
  The \<^verbatim>\<open>post\<close> property: an existing post, with \<^verbatim>\<open>post.stream_id\<close> and
  \<^verbatim>\<open>post.content\<close>. A field the post lacks is the empty string (the empty list for
  \<^verbatim>\<open>media\<close>), which is what \<^verbatim>\<open>post?.content?.title || ''\<close> makes of it.
\<close>

record post =
  stream_id :: jsstring
  post_content :: content

record user =
  did :: jsstring

text \<open>
  What a rejected promise carries. The editor reads nothing of it but \<^verbatim>\<open>message\<close>:
  a value is kept as its \<^verbatim>\<open>message\<close> (the empty string when it has none), and
  \<^verbatim>\<open>null\<close> or \<^verbatim>\<open>undefined\<close>, of which reading \<^verbatim>\<open>message\<close> throws, is kept
  apart.
\<close>

datatype thrown = Thrown jsstring | ThrownNullish

text \<open>What awaiting a call gives: a value, or an exception.\<close>

datatype 'a outcome = Resolves 'a | Rejects thrown

text \<open>The response of \<^verbatim>\<open>orbis.uploadMedia\<close>, \<^verbatim>\<open>createPost\<close> and \<^verbatim>\<open>editPost\<close>.\<close>

record 'r response =
  res_status :: int
  res_result :: 'r
  res_error :: jsstring

text \<open>
  The response of \<^verbatim>\<open>fetch\<close>: the \<^verbatim>\<open>ok\<close> flag and what \<^verbatim>\<open>response.json()\<close>
  gives, an object of which the editor reads \<^verbatim>\<open>message\<close> and \<^verbatim>\<open>content\<close>.
\<close>

record json_data =
  message :: jsstring
  json_content :: jsstring

record http_response =
  ok :: bool
  json :: "json_data outcome"

text \<open>The callback that \<^verbatim>\<open>wrapText\<close> defers with \<^verbatim>\<open>setTimeout\<close>.\<close>

datatype timer = FocusAndSelect nat nat

text \<open>
  The state of the component: the nine \<^verbatim>\<open>useState\<close> variables, the text control
  behind \<^verbatim>\<open>textareaRef\<close> (\<open>None\<close> while it is not mounted) and the callbacks
  waiting in the timer queue. The submission status is the number the code stores:
  0 idle, 1 submitting, 2 success, 3 error.
\<close>

record state =
  title :: jsstring
  body :: jsstring
  media :: "media_ref list"
  mediaLoading :: bool
  category :: jsstring
  status :: nat
  isDropdownOpen :: bool
  isAILoading :: bool
  error :: jsstring
  textareaRef :: "textarea option"
  timeouts :: "timer list"

text \<open>
  What the component is given: the properties \<^verbatim>\<open>post\<close> and \<^verbatim>\<open>onPostCreated\<close>
  (for the callback, whether it is given), the connected \<^verbatim>\<open>user\<close> of
  \<^verbatim>\<open>useOrbis\<close>, the path of the router, and two imports whose modules are not part of
  the file: the point value \<^verbatim>\<open>POINTS_RULES.CREATE_POST\<close> and the function
  \<^verbatim>\<open>getIpfsLink\<close>.
\<close>

record env =
  post :: "post option"
  onPostCreated :: bool
  user :: "user option"
  pathname :: jsstring
  CREATE_POST :: int
  getIpfsLink :: "media_ref \<Rightarrow> jsstring"

text \<open>
  The initial state, as the \<^verbatim>\<open>useState\<close> calls give it: the fields of the existing
  post when there is one, empty otherwise; the text control shows the body.
\<close>

definition init :: "env \<Rightarrow> state" where
  "init e =
     (let c = (case post e of
                 None \<Rightarrow> \<lparr>c_title = [], c_body = [], c_context = [], c_media = []\<rparr>
               | Some p \<Rightarrow> post_content p)
      in \<lparr>title = or_else (c_title c) [],
          body = or_else (c_body c) [],
          media = c_media c,
          mediaLoading = False,
          category = or_else (c_context c) [],
          status = 0,
          isDropdownOpen = False,
          isAILoading = False,
          error = [],
          textareaRef = Some \<lparr>ta_value = or_else (c_body c) [], selectionStart = 0,
                               selectionEnd = 0, focused = False\<rparr>,
          timeouts = []\<rparr>)"

section \<open>Effects\<close>

text \<open>The exception of reading a property of \<^verbatim>\<open>undefined\<close> or \<^verbatim>\<open>null\<close>.\<close>

datatype exn = TypeError

text \<open>
  A handler reads the state variables of the render it was created in and acts through
  calls: the setters of \<^verbatim>\<open>useState\<close>, \<^verbatim>\<open>setTimeout\<close>, and the calls to the outside
  (the content protocol client, \<^verbatim>\<open>fetch\<close>, the router, the console, \<^verbatim>\<open>sleep\<close>).
  A handler is modelled as the list of the calls it makes, in order; the outcome of each
  call to the outside is an argument of the handler.
\<close>

datatype event =
    SetTitle jsstring
  | SetBody jsstring
  | SetMedia "media_ref list"
  | SetMediaLoading bool
  | SetCategory jsstring
  | SetStatus nat
  | SetIsDropdownOpen bool
  | SetIsAILoading bool
  | SetError jsstring
  | SetTimeout timer nat
  | UploadMedia file_obj
  | CreatePost content
  | EditPost jsstring content
  | FetchAwardPoints jsstring int
  | FetchGeneratePost jsstring
  | ResponseJson
  | OnPostCreated
  | Sleep nat
  | RouterReplace jsstring
  | ConsoleError jsstring thrown
  | Alert jsstring
  | Prompt jsstring
  | Uncaught exn

text \<open>
  The effect of one call on the state: a setter overwrites its variable,
  \<^verbatim>\<open>setTimeout\<close> queues its callback, a call to the outside leaves the state alone.
\<close>

fun apply_event :: "state \<Rightarrow> event \<Rightarrow> state" where
  "apply_event s (SetTitle v) = s\<lparr>title := v\<rparr>"
| "apply_event s (SetBody v) = s\<lparr>body := v\<rparr>"
| "apply_event s (SetMedia v) = s\<lparr>media := v\<rparr>"
| "apply_event s (SetMediaLoading v) = s\<lparr>mediaLoading := v\<rparr>"
| "apply_event s (SetCategory v) = s\<lparr>category := v\<rparr>"
| "apply_event s (SetStatus v) = s\<lparr>status := v\<rparr>"
| "apply_event s (SetIsDropdownOpen v) = s\<lparr>isDropdownOpen := v\<rparr>"
| "apply_event s (SetIsAILoading v) = s\<lparr>isAILoading := v\<rparr>"
| "apply_event s (SetError v) = s\<lparr>error := v\<rparr>"
| "apply_event s (SetTimeout t ms) = s\<lparr>timeouts := timeouts s @ [t]\<rparr>"
| "apply_event s _ = s"

definition exec :: "state \<Rightarrow> event list \<Rightarrow> state" where
  "exec s evs = foldl apply_event s evs"

section \<open>The handlers of the editor\<close>

subsection \<open>resetForm\<close>

definition resetForm :: "event list" where
  "resetForm = [SetTitle [], SetBody [], SetMedia [], SetCategory [], SetError []]"

subsection \<open>wrapText and the formatting buttons\<close>

text \<open>
  \<^verbatim>\<open>wrapText\<close> reads the text control behind \<^verbatim>\<open>textareaRef\<close>; reading
  \<^verbatim>\<open>selectionStart\<close> of a control that is not mounted throws, before anything is done.
  Otherwise it sets the body and defers the callback that focuses the control and sets
  its selection.
\<close>

definition wrapText :: "jsstring \<Rightarrow> jsstring \<Rightarrow> jsstring \<Rightarrow> state \<Rightarrow> exn + event list" where
  "wrapText before after defaultText s =
     (case textareaRef s of
        None \<Rightarrow> Inl TypeError
      | Some textarea \<Rightarrow>
          let start = selectionStart textarea;
              end = selectionEnd textarea;
              selectedText = or_else (substring (ta_value textarea) start end) defaultText;
              newText =
                substring (ta_value textarea) 0 start @
                before @
                selectedText @
                after @
                substring_from (ta_value textarea) end
          in Inr [SetBody newText,
                  SetTimeout (FocusAndSelect (start + length before)
                                (start + length before + length selectedText)) 0])"

text \<open>An event handler whose exception nothing catches.\<close>

definition handler :: "exn + event list \<Rightarrow> event list" where
  "handler r = (case r of Inl err \<Rightarrow> [Uncaught err] | Inr evs \<Rightarrow> evs)"

definition addBold :: "state \<Rightarrow> event list" where
  "addBold s = handler (wrapText (js ''**'') (js ''**'') (js ''bold text'') s)"

definition addItalic :: "state \<Rightarrow> event list" where
  "addItalic s = handler (wrapText (js ''_'') (js ''_'') (js ''italic text'') s)"

definition addHeading2 :: "state \<Rightarrow> event list" where
  "addHeading2 s = handler (wrapText (js ''## '') [0x000A] (js ''Heading 2'') s)"

definition addHeading3 :: "state \<Rightarrow> event list" where
  "addHeading3 s = handler (wrapText (js ''### '') [0x000A] (js ''Heading 3'') s)"

definition addCodeBlock :: "state \<Rightarrow> event list" where
  "addCodeBlock s =
     handler (wrapText (js ''```'' @ [0x000A]) ([0x000A] @ js ''```'') (js ''code block'') s)"

text \<open>\<^verbatim>\<open>prompt\<close> gives the text typed, or \<^verbatim>\<open>null\<close> when the dialog is cancelled.\<close>

definition addLink :: "jsstring option \<Rightarrow> state \<Rightarrow> event list" where
  "addLink url s =
     Prompt (js ''Enter URL:'') #
     (case url of
        None \<Rightarrow> []
      | Some u \<Rightarrow>
          if u \<noteq> [] then handler (wrapText (js ''['') (js '']('' @ u @ js '')'') (js ''link text'') s)
          else [])"

subsection \<open>addImage\<close>

text \<open>\<^verbatim>\<open>file.type.match(/^image\//)\<close>: the type starts with \<^verbatim>\<open>image/\<close>.\<close>

definition is_image :: "file_obj \<Rightarrow> bool" where
  "is_image f = (take 6 (file_type f) = js ''image/'')"

text \<open>
  \<open>file\<close> is \<^verbatim>\<open>event.target.files[0]\<close>, \<open>None\<close> when the list is empty;
  \<open>uploaded\<close> is what awaiting \<^verbatim>\<open>orbis.uploadMedia(file)\<close> gives.
\<close>

definition addImage ::
  "env \<Rightarrow> file_obj option \<Rightarrow> media_ref response outcome \<Rightarrow> state \<Rightarrow> event list" where
  "addImage e file uploaded s =
     [SetMediaLoading True] @
     (case file of
        None \<Rightarrow> []
      | Some f \<Rightarrow>
          if is_image f then
            UploadMedia f #
            (case uploaded of
               Rejects err \<Rightarrow> [SetError (js ''Failed to upload image. Please try again.'')]
             | Resolves res \<Rightarrow>
                 if res_status res = 200 then
                   (case wrapText (js ''!['') (js '']('' @ getIpfsLink e (res_result res) @ js '')'')
                           (js ''Image description'') s of
                      Inl err \<Rightarrow> [SetError (js ''Failed to upload image. Please try again.'')]
                    | Inr evs \<Rightarrow> evs @ [SetMedia (media s @ [res_result res])])
                 else [SetError (js ''Error uploading image. Please try again.'')])
          else []) @
     [SetMediaLoading False]"

subsection \<open>awardPoints\<close>

text \<open>
  The body of the \<^verbatim>\<open>try\<close> block, after the \<^verbatim>\<open>fetch\<close> call: the data of the
  response, or the exception thrown on the way.
\<close>

definition awardPoints_try :: "http_response outcome \<Rightarrow> json_data outcome" where
  "awardPoints_try fetched =
     (case fetched of
        Rejects err \<Rightarrow> Rejects err
      | Resolves response \<Rightarrow>
          if \<not> ok response then
            (case json response of
               Rejects err \<Rightarrow> Rejects err
             | Resolves errorData \<Rightarrow>
                 Rejects (Thrown (or_else (message errorData) (js ''Failed to award points''))))
          else json response)"

text \<open>
  \<^verbatim>\<open>awardPoints\<close> catches every exception, logs it and returns \<^verbatim>\<open>null\<close>: it gives
  the calls made and the value returned, and never throws. The \<^verbatim>\<open>fetch\<close> is issued at
  the call; the console output comes at some later time and changes no state, and is
  listed right after the \<^verbatim>\<open>fetch\<close>.
\<close>

definition awardPoints ::
  "jsstring \<Rightarrow> int \<Rightarrow> http_response outcome \<Rightarrow> event list \<times> json_data option" where
  "awardPoints did' points fetched =
     (case awardPoints_try fetched of
        Resolves data \<Rightarrow> ([FetchAwardPoints did' points], Some data)
      | Rejects err \<Rightarrow>
          ([FetchAwardPoints did' points, ConsoleError (js ''Error awarding points:'') err], None))"

subsection \<open>generatePostWithAI\<close>

definition generate_failed :: "thrown \<Rightarrow> event list" where
  "generate_failed err =
     [ConsoleError (js ''Error generating post:'') err,
      SetError (js ''Failed to generate post. Please try again.'')]"

definition generatePostWithAI :: "env \<Rightarrow> http_response outcome \<Rightarrow> state \<Rightarrow> event list" where
  "generatePostWithAI e fetched s =
     (if user e = None then [Alert (js ''You must be connected to use this feature.'')]
      else
        [SetIsAILoading True,
         FetchGeneratePost (js ''Write a short post about building in web3.'')] @
        (case fetched of
           Rejects err \<Rightarrow> generate_failed err
         | Resolves response \<Rightarrow>
             if \<not> ok response then generate_failed (Thrown (js ''Failed to generate post''))
             else
               ResponseJson #
               (case json response of
                  Rejects err \<Rightarrow> generate_failed err
                | Resolves data \<Rightarrow> [SetBody (json_content data)])) @
        [SetIsAILoading False])"

subsection \<open>updateArticle\<close>

text \<open>
  What the calls that \<^verbatim>\<open>updateArticle\<close> awaits give: the create or edit call of the
  content protocol client, the \<^verbatim>\<open>fetch\<close> of the points service, the callback
  \<^verbatim>\<open>onPostCreated\<close>, and \<^verbatim>\<open>router.replace\<close>.
\<close>

record calls =
  submit_res :: "unit response outcome"
  points_res :: "http_response outcome"
  notify_res :: "unit outcome"
  replace_res :: "bool outcome"

text \<open>
  The \<^verbatim>\<open>catch\<close> block of \<^verbatim>\<open>updateArticle\<close>. It logs the exception and then reads
  \<^verbatim>\<open>error.message\<close>: when the exception is \<^verbatim>\<open>null\<close> or \<^verbatim>\<open>undefined\<close> that read
  throws, nothing catches it, and the rest of the block does not run.
\<close>

fun submit_failed :: "thrown \<Rightarrow> event list" where
  "submit_failed (Thrown msg) =
     [ConsoleError (js ''Error creating/editing post:'') (Thrown msg),
      SetError (or_else msg (js ''Failed to create post'')),
      SetStatus 3,
      Sleep 1000,
      SetStatus 0]"
| "submit_failed ThrownNullish =
     [ConsoleError (js ''Error creating/editing post:'') ThrownNullish,
      Uncaught TypeError]"

text \<open>The end of the success branch: the pause and the navigation to the home page.\<close>

definition navigate_home :: "env \<Rightarrow> calls \<Rightarrow> event list" where
  "navigate_home e c =
     Sleep 500 #
     (if pathname e \<noteq> js ''/'' then
        RouterReplace (js ''/'') #
        (case replace_res c of Rejects err \<Rightarrow> submit_failed err | Resolves done \<Rightarrow> [])
      else [])"

text \<open>The success branch after the form is reset: the parent is told, then the rest.\<close>

definition after_success :: "env \<Rightarrow> calls \<Rightarrow> event list" where
  "after_success e c =
     (if onPostCreated e then
        OnPostCreated #
        (case notify_res c of
           Rejects err \<Rightarrow> submit_failed err
         | Resolves done \<Rightarrow> navigate_home e c)
      else navigate_home e c)"

definition updateArticle :: "env \<Rightarrow> calls \<Rightarrow> state \<Rightarrow> event list" where
  "updateArticle e c s =
     (if category s = [] then [SetError (js ''Please select a category'')]
      else if trim (title s) = [] then [SetError (js ''Please enter a title'')]
      else if trim (body s) = [] then [SetError (js ''Please enter content'')]
      else
        [SetStatus 1, SetError []] @
        (let content = \<lparr>c_title = trim (title s), c_body = trim (body s),
                        c_context = category s, c_media = media s\<rparr>
         in (case post e of
               Some p \<Rightarrow> EditPost (stream_id p) content
             | None \<Rightarrow> CreatePost content) #
            (case submit_res c of
               Rejects err \<Rightarrow> submit_failed err
             | Resolves res \<Rightarrow>
                 if res_status res = 200 then
                   (case (post e, user e) of
                      (None, Some u) \<Rightarrow> fst (awardPoints (did u) (CREATE_POST e) (points_res c))
                    | _ \<Rightarrow> []) @
                   [SetStatus 2] @
                   resetForm @
                   after_success e c
                 else
                   submit_failed
                     (Thrown (or_else (res_error res) (js ''Failed to create post''))))))"

subsection \<open>The rendered controls\<close>

text \<open>The \<^verbatim>\<open>disabled\<close> attribute of the Post button.\<close>

definition post_disabled :: "state \<Rightarrow> bool" where
  "post_disabled s = (category s = [] \<or> title s = [] \<or> body s = [] \<or> status s = 1)"

text \<open>
  What the user can do with the rendered component, each with the outcome of the calls
  it leads to, and the handler each one runs. A disabled button runs nothing.
\<close>

datatype action =
    TypeTitle jsstring
  | TypeBody jsstring
  | ClickGenerate "http_response outcome"
  | ChooseImage "file_obj option" "media_ref response outcome"
  | ClickBold
  | ClickItalic
  | ClickCodeBlock
  | ToggleDropdown
  | ChooseCategory jsstring
  | ClickOutside bool
  | ClickPost calls

fun handle :: "env \<Rightarrow> state \<Rightarrow> action \<Rightarrow> event list" where
  "handle e s (TypeTitle v) = [SetTitle v]"
| "handle e s (TypeBody v) = [SetBody v]"
| "handle e s (ClickGenerate fetched) = generatePostWithAI e fetched s"
| "handle e s (ChooseImage file uploaded) =
     (if mediaLoading s then [] else addImage e file uploaded s)"
| "handle e s ClickBold = addBold s"
| "handle e s ClickItalic = addItalic s"
| "handle e s ClickCodeBlock = addCodeBlock s"
| "handle e s ToggleDropdown = [SetIsDropdownOpen (\<not> isDropdownOpen s)]"
| "handle e s (ChooseCategory cat) =
     (if isDropdownOpen s then [SetCategory cat, SetIsDropdownOpen False] else [])"
| "handle e s (ClickOutside inside_dropdown) =
     (if \<not> inside_dropdown then [SetIsDropdownOpen False] else [])"
| "handle e s (ClickPost c) = (if post_disabled s then [] else updateArticle e c s)"

subsection \<open>Rendering and the deferred selection\<close>

text \<open>
  The text control is controlled by \<^verbatim>\<open>value={body}\<close>: rendering gives it the body.
  A control whose value changes has its cursor moved to the end of the text.
\<close>

definition render :: "state \<Rightarrow> state" where
  "render s =
     s\<lparr>textareaRef :=
         map_option
           (\<lambda>ta. if ta_value ta = body s then ta
                 else ta\<lparr>ta_value := body s, selectionStart := length (body s),
                         selectionEnd := length (body s)\<rparr>)
           (textareaRef s)\<rparr>"

text \<open>
  \<^verbatim>\<open>setSelectionRange(start, end)\<close> of a text control: offsets beyond the value point
  at its end, and a start beyond the end is moved to the end.
\<close>

definition setSelectionRange :: "nat \<Rightarrow> nat \<Rightarrow> textarea \<Rightarrow> textarea" where
  "setSelectionRange start end ta =
     (let len = length (ta_value ta);
          end' = min end len;
          start' = min (min start len) end'
      in ta\<lparr>selectionStart := start', selectionEnd := end'\<rparr>)"

fun run_timer :: "state \<Rightarrow> timer \<Rightarrow> state" where
  "run_timer s (FocusAndSelect start end) =
     s\<lparr>textareaRef :=
         map_option (\<lambda>ta. setSelectionRange start end (ta\<lparr>focused := True\<rparr>)) (textareaRef s)\<rparr>"

definition flush_timeouts :: "state \<Rightarrow> state" where
  "flush_timeouts s = (foldl run_timer s (timeouts s))\<lparr>timeouts := []\<rparr>"

subsection \<open>Handlers that wait\<close>

text \<open>
  An \<^verbatim>\<open>async\<close> handler runs up to its next \<^verbatim>\<open>await\<close> and is suspended there; it is
  resumed when the awaited call has settled, and meanwhile the user may act and other
  suspended handlers may be resumed. The awaited calls of the editor are the upload, the
  create and edit calls, the \<^verbatim>\<open>fetch\<close> and \<^verbatim>\<open>response.json()\<close> of the generator, the
  callback \<^verbatim>\<open>onPostCreated\<close>, \<^verbatim>\<open>sleep\<close> and \<^verbatim>\<open>router.replace\<close>. The \<^verbatim>\<open>fetch\<close> of
  \<^verbatim>\<open>awardPoints\<close> is not awaited by \<^verbatim>\<open>updateArticle\<close>.
\<close>

fun is_await :: "event \<Rightarrow> bool" where
  "is_await (UploadMedia f) = True"
| "is_await (CreatePost c) = True"
| "is_await (EditPost i c) = True"
| "is_await (FetchGeneratePost p) = True"
| "is_await ResponseJson = True"
| "is_await OnPostCreated = True"
| "is_await (Sleep ms) = True"
| "is_await (RouterReplace path) = True"
| "is_await ev = False"

text \<open>The calls up to and including the next awaited one.\<close>

fun segment :: "event list \<Rightarrow> event list" where
  "segment [] = []"
| "segment (ev # evs) = (if is_await ev then [ev] else ev # segment evs)"

text \<open>
  A handler under way: the state of the render it was created in, the action that
  started it, and the number of calls it has made so far.
\<close>

record task =
  closure :: state
  act :: action
  pc :: nat



text \<open>
  The component with its suspended handlers. A move is an action of the user, which
  starts a handler, or the resumption of the suspended handler at a position.
\<close>

record world =
  shown :: state
  tasks :: "task list"





subsection \<open>The submission status over time\<close>

text \<open>The values that a list of calls gives to the submission status, in order.\<close>

fun status_writes :: "event list \<Rightarrow> nat list" where
  "status_writes [] = []"
| "status_writes (SetStatus v # evs) = v # status_writes evs"
| "status_writes (ev # evs) = status_writes evs"



text \<open>The calls to the points service in a list of calls.\<close>

fun points_calls :: "event list \<Rightarrow> (jsstring \<times> int) list" where
  "points_calls [] = []"
| "points_calls (FetchAwardPoints d p # evs) = (d, p) # points_calls evs"
| "points_calls (ev # evs) = points_calls evs"

text \<open>The create and edit calls in a list of calls.\<close>

fun submit_calls :: "event list \<Rightarrow> event list" where
  "submit_calls [] = []"
| "submit_calls (CreatePost c # evs) = CreatePost c # submit_calls evs"
| "submit_calls (EditPost i c # evs) = EditPost i c # submit_calls evs"
| "submit_calls (ev # evs) = submit_calls evs"

text \<open>The upload calls in a list of calls.\<close>

fun upload_calls :: "event list \<Rightarrow> file_obj list" where
  "upload_calls [] = []"
| "upload_calls (UploadMedia f # evs) = f # upload_calls evs"
| "upload_calls (ev # evs) = upload_calls evs"

text \<open>
  Every write of the error status is followed by the pause of 1000 ms and the write of
  idle, and nothing else.
\<close>

fun error_then_idle :: "event list \<Rightarrow> bool" where
  "error_then_idle [] = True"
| "error_then_idle (SetStatus v # evs) =
     (if v = 3 then evs = [Sleep 1000, SetStatus 0] else error_then_idle evs)"
| "error_then_idle (ev # evs) = error_then_idle evs"


text \<open>The slice \<open>text[i:j]\<close> of a sequence, for \<open>i \<le> j \<le> length text\<close>.\<close>

definition slice :: "'a list \<Rightarrow> nat \<Rightarrow> nat \<Rightarrow> 'a list" where
  "slice text i j = take (j - i) (drop i text)"

subsection \<open>Example inputs\<close>

text \<open>
  An editor opened without a post by a connected user, on the home page, with no
  \<^verbatim>\<open>onPostCreated\<close> callback.
\<close>

definition new_editor :: env where
  "new_editor =
     \<lparr>post = None, onPostCreated = False, user = Some \<lparr>did = js ''did:pkh:alice''\<rparr>,
      pathname = js ''/'', CREATE_POST = 10, getIpfsLink = (\<lambda>m. js ''ipfs://image'')\<rparr>"

text \<open>The new editor whose text control shows \<open>text\<close> with the selection \<open>start..end\<close>.\<close>

definition editing :: "jsstring \<Rightarrow> nat \<Rightarrow> nat \<Rightarrow> state" where
  "editing text start end =
     (init new_editor)
       \<lparr>body := text,
        textareaRef := Some \<lparr>ta_value = text, selectionStart = start, selectionEnd = end,
                             focused = True\<rparr>\<rparr>"

text \<open>Calls that all succeed: status 200, points awarded, callback and navigation done.\<close>

definition calls_ok :: calls where
  "calls_ok =
     \<lparr>submit_res = Resolves \<lparr>res_status = 200, res_result = (), res_error = []\<rparr>,
      points_res = Resolves \<lparr>ok = True, json = Resolves \<lparr>message = [], json_content = []\<rparr>\<rparr>,
      notify_res = Resolves (),
      replace_res = Resolves True\<rparr>"

text \<open>A draft with the given category, title and body in the new editor.\<close>

definition draft :: "jsstring \<Rightarrow> jsstring \<Rightarrow> jsstring \<Rightarrow> state" where
  "draft cat t b = (editing b 0 0)\<lparr>category := cat, title := t\<rparr>"



section \<open>Basic facts\<close>

lemma exec_Nil: "exec s [] = s"
  by (simp add: exec_def)

lemma exec_Cons: "exec s (ev # evs) = exec (apply_event s ev) evs"
  by (simp add: exec_def)

lemma exec_append: "exec s (xs @ ys) = exec (exec s xs) ys"
  by (simp add: exec_def)

text \<open>A string is blank exactly when trimming leaves nothing.\<close>

lemma blank_iff_trim: "blank str \<longleftrightarrow> trim str = []"
proof -
  have *: "(\<forall>x\<in>set (dropWhile is_white_space str). is_white_space x) \<longleftrightarrow>
        dropWhile is_white_space str = []"
  proof
    assume all: "\<forall>x\<in>set (dropWhile is_white_space str). is_white_space x"
    show "dropWhile is_white_space str = []"
    proof (rule ccontr)
      assume ne: "dropWhile is_white_space str \<noteq> []"
      have "\<not> is_white_space (hd (dropWhile is_white_space str))"
        using ne by (rule hd_dropWhile)
      moreover have "hd (dropWhile is_white_space str) \<in> set (dropWhile is_white_space str)"
        using ne by (rule hd_in_set)
      ultimately show False using all by blast
    qed
  next
    assume "dropWhile is_white_space str = []"
    then show "\<forall>x\<in>set (dropWhile is_white_space str). is_white_space x"
      by (simp only: list.set ball_empty)
  qed
  have "trim str = [] \<longleftrightarrow>
        (\<forall>x\<in>set (dropWhile is_white_space str). is_white_space x)"
    by (simp add: trim_def dropWhile_eq_Nil_conv)
  also have "\<dots> \<longleftrightarrow> dropWhile is_white_space str = []"
    by (rule *)
  also have "\<dots> \<longleftrightarrow> blank str"
    by (simp add: blank_def list_all_iff dropWhile_eq_Nil_conv)
  finally show ?thesis by simp
qed

text \<open>On offsets in order, \<^verbatim>\<open>substring\<close> is the slice; it clamps what lies beyond the text.\<close>

lemma substring_slice: "start \<le> end \<Longrightarrow> substring text start end = slice text start end"
  by (auto simp add: substring_def slice_def Let_def min_def max_def)

lemma substring_prefix: "substring text 0 start = take start text"
  by (simp add: substring_def Let_def min_def)

lemma substring_from_drop: "substring_from text end = drop end text"
  by (simp add: substring_from_def min_def)

section \<open>The wrap helper\<close>

text \<open>
  C1. For every buffer \<open>text\<close>, offsets \<open>start \<le> end \<le> length text\<close>, prefix, suffix and
  fallback string, \<^verbatim>\<open>wrapText\<close> sets the body to
  \<open>text[0:start] + prefix + (text[start:end] if the selection is non-empty, otherwise
  fallback) + suffix + text[end:]\<close>.
\<close>

theorem wrapText_body:
  assumes "textareaRef s =
             Some \<lparr>ta_value = text, selectionStart = start, selectionEnd = end, focused = f\<rparr>"
    and "start \<le> end" and "end \<le> length text"
  shows "\<exists>evs. wrapText before after defaultText s = Inr evs \<and>
           body (exec s evs) =
             slice text 0 start @ before @
             (if start < end then slice text start end else defaultText) @
             after @ slice text end (length text)"
  using assms
  by (simp add: wrapText_def Let_def substring_slice substring_prefix substring_from_drop
        exec_Nil exec_Cons or_else_def slice_def)

text \<open>The example of the specification: bold around the selected word of "hello world".\<close>

theorem wrapText_body_witness:
  "textareaRef (editing (js ''hello world'') 6 11) =
     Some \<lparr>ta_value = js ''hello world'', selectionStart = 6, selectionEnd = 11,
           focused = True\<rparr> \<and>
   (6::nat) \<le> 11 \<and> 11 \<le> length (js ''hello world'') \<and>
   (\<exists>evs. wrapText (js ''**'') (js ''**'') (js ''bold text'')
            (editing (js ''hello world'') 6 11) = Inr evs \<and>
          body (exec (editing (js ''hello world'') 6 11) evs) = js ''hello **world**'')"
  using wrapText_body [of "editing (js ''hello world'') 6 11" "js ''hello world''" 6 11 True
      "js ''**''" "js ''**''" "js ''bold text''"]
  by (simp add: editing_def js_def slice_def)

text \<open>
  The deferred callback: firing the timers leaves the value of the text control alone,
  and the last timer decides the selection.
\<close>

lemma run_timer_textarea:
  "textareaRef s = Some ta \<Longrightarrow>
     \<exists>ta'. textareaRef (run_timer s t) = Some ta' \<and> ta_value ta' = ta_value ta"
  by (cases t) (simp add: setSelectionRange_def Let_def)

lemma run_timers_textarea:
  "textareaRef s = Some ta \<Longrightarrow>
     \<exists>ta'. textareaRef (foldl run_timer s ts) = Some ta' \<and> ta_value ta' = ta_value ta"
proof (induction ts arbitrary: s ta)
  case Nil
  then show ?case by simp
next
  case (Cons t ts)
  from run_timer_textarea [OF Cons.prems, of t]
  obtain ta1 where 1: "textareaRef (run_timer s t) = Some ta1" "ta_value ta1 = ta_value ta"
    by blast
  from Cons.IH [OF 1(1)] 1(2) show ?case by simp
qed

lemma render_textarea:
  "textareaRef s = Some ta \<Longrightarrow>
     \<exists>ta'. textareaRef (render s) = Some ta' \<and> ta_value ta' = body s"
  by (simp add: render_def)

lemma render_timeouts: "timeouts (render s) = timeouts s"
  by (simp add: render_def)

lemma flush_last_timer:
  assumes "textareaRef s = Some ta" and "timeouts s = ts @ [FocusAndSelect a b]"
    and "a \<le> b" and "b \<le> length (ta_value ta)"
  shows "\<exists>ta'. textareaRef (flush_timeouts s) = Some ta' \<and> ta_value ta' = ta_value ta \<and>
           focused ta' \<and> selectionStart ta' = a \<and> selectionEnd ta' = b"
proof -
  from run_timers_textarea [OF assms(1), of ts]
  obtain ta1 where 1: "textareaRef (foldl run_timer s ts) = Some ta1"
    "ta_value ta1 = ta_value ta" by blast
  show ?thesis
    using 1 assms(2-4)
    by (simp add: flush_timeouts_def setSelectionRange_def Let_def min_def)
qed

text \<open>Rendering and firing the timers touch the text control and the timer queue only.\<close>

lemma run_timer_frame: "run_timer s t = s\<lparr>textareaRef := textareaRef (run_timer s t)\<rparr>"
  by (cases t) simp

lemma run_timers_frame:
  "foldl run_timer s ts = s\<lparr>textareaRef := textareaRef (foldl run_timer s ts)\<rparr>"
proof (induction ts arbitrary: s)
  case Nil
  show ?case by simp
next
  case (Cons t ts)
  have "foldl run_timer (run_timer s t) ts =
          (run_timer s t)\<lparr>textareaRef := textareaRef (foldl run_timer (run_timer s t) ts)\<rparr>"
    by (rule Cons.IH)
  also have "\<dots> = s\<lparr>textareaRef := textareaRef (foldl run_timer (run_timer s t) ts)\<rparr>"
    by (subst run_timer_frame) simp
  finally show ?case by simp
qed

lemma flush_timeouts_frame:
  "flush_timeouts s = s\<lparr>textareaRef := textareaRef (flush_timeouts s), timeouts := []\<rparr>"
  by (subst flush_timeouts_def, subst run_timers_frame) (simp add: flush_timeouts_def)

lemma render_frame: "render s = s\<lparr>textareaRef := textareaRef (render s)\<rparr>"
  by (simp add: render_def)

lemma shown_frame:
  "flush_timeouts (render s) =
     s\<lparr>textareaRef := textareaRef (flush_timeouts (render s)), timeouts := []\<rparr>"
  by (subst flush_timeouts_frame, subst render_frame) simp

text \<open>
  C5. For every invocation of \<^verbatim>\<open>wrapText\<close> with \<open>start \<le> end\<close> (inside the text, as
  a browser keeps the selection), the selection range requested afterwards starts at
  \<open>start + length prefix\<close> and ends at \<open>start + length prefix + length\<close> of the selected
  text, or of the fallback when the selection is empty. The range is applied unchanged
  once the control shows the new body, and it covers exactly the selected or inserted
  text, right after the prefix.
\<close>

theorem wrapText_selection:
  assumes "textareaRef s =
             Some \<lparr>ta_value = text, selectionStart = start, selectionEnd = end, focused = f\<rparr>"
    and "start \<le> end" and "end \<le> length text"
  shows "\<exists>newText.
           wrapText before after defaultText s =
             Inr [SetBody newText,
                  SetTimeout (FocusAndSelect (start + length before)
                     (start + length before +
                      length (if start < end then slice text start end else defaultText))) 0] \<and>
           (\<exists>ta. textareaRef (flush_timeouts (render (exec s
                     [SetBody newText,
                      SetTimeout (FocusAndSelect (start + length before)
                        (start + length before +
                         length (if start < end then slice text start end
                                 else defaultText))) 0]))) = Some ta \<and>
                 ta_value ta = newText \<and> focused ta \<and>
                 selectionStart ta = start + length before \<and>
                 selectionEnd ta =
                   start + length before +
                   length (if start < end then slice text start end else defaultText) \<and>
                 slice (ta_value ta) (selectionStart ta) (selectionEnd ta) =
                   (if start < end then slice text start end else defaultText))"
proof -
  let ?sel = "if start < end then slice text start end else defaultText"
  let ?new = "take start text @ before @ ?sel @ after @ drop end text"
  let ?t = "FocusAndSelect (start + length before) (start + length before + length ?sel)"
  let ?evs = "[SetBody ?new, SetTimeout ?t 0]"
  have chosen: "or_else (slice text start end) defaultText = ?sel"
    using assms(2,3) by (auto simp add: or_else_def slice_def)
  have w: "wrapText before after defaultText s = Inr ?evs"
    using assms(1,2)
    by (simp only: wrapText_def Let_def substring_slice substring_prefix substring_from_drop
          chosen option.case textarea.simps)
  let ?s1 = "render (exec s ?evs)"
  from render_textarea [of "exec s ?evs"] assms(1)
  obtain ta1 where 1: "textareaRef ?s1 = Some ta1" "ta_value ta1 = ?new"
    by (auto simp add: exec_Nil exec_Cons)
  have 2: "timeouts ?s1 = timeouts s @ [?t]"
    by (simp add: render_timeouts exec_Nil exec_Cons)
  have 3: "start + length before + length ?sel \<le> length (ta_value ta1)"
    using assms(2,3) by (simp add: 1)
  from flush_last_timer [OF 1(1) 2 _ 3]
  obtain ta2 where 4: "textareaRef (flush_timeouts ?s1) = Some ta2"
    "ta_value ta2 = ta_value ta1" "focused ta2"
    "selectionStart ta2 = start + length before"
    "selectionEnd ta2 = start + length before + length ?sel"
    by auto
  have 5: "slice ?new (start + length before) (start + length before + length ?sel) = ?sel"
    using assms(2,3) by (simp add: slice_def)
  have "\<exists>ta. textareaRef (flush_timeouts ?s1) = Some ta \<and>
          ta_value ta = ?new \<and> focused ta \<and>
          selectionStart ta = start + length before \<and>
          selectionEnd ta = start + length before + length ?sel \<and>
          slice (ta_value ta) (selectionStart ta) (selectionEnd ta) = ?sel"
    using 4 1(2) 5 by simp
  with w show ?thesis by blast
qed

text \<open>
  An empty selection, where the range covers the inserted fallback, and the example of
  the specification, where it covers "world".
\<close>

theorem wrapText_selection_witness:
  "textareaRef (editing (js ''hello'') 2 2) =
     Some \<lparr>ta_value = js ''hello'', selectionStart = 2, selectionEnd = 2, focused = True\<rparr> \<and>
   (2::nat) \<le> 2 \<and> 2 \<le> length (js ''hello'') \<and>
   wrapText (js ''**'') (js ''**'') (js ''bold text'') (editing (js ''hello'') 2 2) =
     Inr [SetBody (js ''he**bold text**llo''), SetTimeout (FocusAndSelect 4 13) 0] \<and>
   (\<exists>ta. textareaRef (flush_timeouts (render (exec (editing (js ''hello'') 2 2)
             [SetBody (js ''he**bold text**llo''), SetTimeout (FocusAndSelect 4 13) 0]))) = Some ta \<and>
         selectionStart ta = 4 \<and> selectionEnd ta = 13 \<and>
         slice (ta_value ta) (selectionStart ta) (selectionEnd ta) = js ''bold text'') \<and>
   textareaRef (editing (js ''hello world'') 6 11) =
     Some \<lparr>ta_value = js ''hello world'', selectionStart = 6, selectionEnd = 11,
           focused = True\<rparr> \<and>
   (6::nat) \<le> 11 \<and> 11 \<le> length (js ''hello world'') \<and>
   wrapText (js ''**'') (js ''**'') (js ''bold text'') (editing (js ''hello world'') 6 11) =
     Inr [SetBody (js ''hello **world**''), SetTimeout (FocusAndSelect 8 13) 0] \<and>
   (\<exists>ta. textareaRef (flush_timeouts (render (exec (editing (js ''hello world'') 6 11)
             [SetBody (js ''hello **world**''), SetTimeout (FocusAndSelect 8 13) 0]))) = Some ta \<and>
         selectionStart ta = 8 \<and> selectionEnd ta = 13 \<and>
         slice (ta_value ta) (selectionStart ta) (selectionEnd ta) = js ''world'')"
  using wrapText_selection [of "editing (js ''hello'') 2 2" "js ''hello''" 2 2 True
      "js ''**''" "js ''**''" "js ''bold text''"]
    wrapText_selection [of "editing (js ''hello world'') 6 11" "js ''hello world''" 6 11 True
      "js ''**''" "js ''**''" "js ''bold text''"]
  by (auto simp add: editing_def js_def slice_def or_else_def wrapText_def substring_def
        substring_from_def Let_def)



text \<open>
  C9. Every invocation of \<^verbatim>\<open>wrapText\<close> modifies only the body buffer: title, media
  sequence, category, submission status and error message are unchanged, right after the
  call and also after the render and the deferred selection callback.
\<close>

theorem wrapText_frame:
  fixes s :: state and before after defaultText :: jsstring
  defines "evs \<equiv> handler (wrapText before after defaultText s)"
  shows "title (exec s evs) = title s \<and> media (exec s evs) = media s \<and>
         category (exec s evs) = category s \<and> status (exec s evs) = status s \<and>
         error (exec s evs) = error s \<and>
         title (flush_timeouts (render (exec s evs))) = title s \<and>
         media (flush_timeouts (render (exec s evs))) = media s \<and>
         category (flush_timeouts (render (exec s evs))) = category s \<and>
         status (flush_timeouts (render (exec s evs))) = status s \<and>
         error (flush_timeouts (render (exec s evs))) = error s"
proof -
  have 1: "title (exec s evs) = title s \<and> media (exec s evs) = media s \<and>
         category (exec s evs) = category s \<and> status (exec s evs) = status s \<and>
         error (exec s evs) = error s"
    by (simp add: evs_def handler_def wrapText_def Let_def exec_Nil exec_Cons
          split: option.splits)
  have 2: "title (flush_timeouts (render s')) = title s' \<and>
           media (flush_timeouts (render s')) = media s' \<and>
           category (flush_timeouts (render s')) = category s' \<and>
           status (flush_timeouts (render s')) = status s' \<and>
           error (flush_timeouts (render s')) = error s'" for s'
    by (subst shown_frame, simp)+
  from 1 2 [of "exec s evs"] show ?thesis by simp
qed

section \<open>Adding an image\<close>

text \<open>
  C10. For every image-add attempt where no file is provided or the type of the file does
  not match \<^verbatim>\<open>image/*\<close>, the media-loading flag is raised and cleared and nothing else
  happens: no upload call, no error message, media sequence and body unchanged.
\<close>

theorem addImage_without_image:
  assumes "file = None \<or> (\<exists>f. file = Some f \<and> \<not> is_image f)"
  shows "addImage e file uploaded s = [SetMediaLoading True, SetMediaLoading False] \<and>
         upload_calls (addImage e file uploaded s) = [] \<and>
         exec s (addImage e file uploaded s) = s\<lparr>mediaLoading := False\<rparr>"
  using assms by (auto simp add: addImage_def exec_Nil exec_Cons)

theorem addImage_without_image_witness:
  "\<not> is_image \<lparr>file_type = js ''text/plain'', file_data = 7\<rparr> \<and>
   addImage new_editor (Some \<lparr>file_type = js ''text/plain'', file_data = 7\<rparr>)
     (Rejects (Thrown [])) (editing (js ''hello'') 0 0) =
     [SetMediaLoading True, SetMediaLoading False] \<and>
   exec (editing (js ''hello'') 0 0)
     (addImage new_editor (Some \<lparr>file_type = js ''text/plain'', file_data = 7\<rparr>)
        (Rejects (Thrown [])) (editing (js ''hello'') 0 0)) =
     (editing (js ''hello'') 0 0)\<lparr>mediaLoading := False\<rparr>"
  using addImage_without_image [of "Some \<lparr>file_type = js ''text/plain'', file_data = 7\<rparr>"
      new_editor "Rejects (Thrown [])" "editing (js ''hello'') 0 0"]
  by (simp add: is_image_def js_def exec_Nil exec_Cons)

text \<open>The Post button and the submission read neither the loading flag nor the error.\<close>

lemma post_disabled_frame:
  "post_disabled (s\<lparr>mediaLoading := m\<rparr>) = post_disabled s"
  "post_disabled (s\<lparr>error := x\<rparr>) = post_disabled s"
  by (simp_all add: post_disabled_def)

lemma updateArticle_frame:
  "updateArticle e c (s\<lparr>mediaLoading := m\<rparr>) = updateArticle e c s"
  "updateArticle e c (s\<lparr>error := x\<rparr>) = updateArticle e c s"
  by (simp_all add: updateArticle_def)

text \<open>
  C7. For every image upload attempt whose upload call fails (a status other than 200, or
  an exception), an inline error message is set and the draft is otherwise unchanged:
  nothing is appended to the media sequence, the body is not modified, and the user may
  still submit afterwards (the Post button and the submission behave as before).
\<close>

theorem addImage_upload_failure:
  assumes "is_image f"
    and "(\<exists>err. uploaded = Rejects err) \<or>
         (\<exists>res. uploaded = Resolves res \<and> res_status res \<noteq> 200)"
  shows "\<exists>msg. msg \<noteq> [] \<and>
           addImage e (Some f) uploaded s =
             [SetMediaLoading True, UploadMedia f, SetError msg, SetMediaLoading False] \<and>
           exec s (addImage e (Some f) uploaded s) = s\<lparr>mediaLoading := False, error := msg\<rparr> \<and>
           post_disabled (exec s (addImage e (Some f) uploaded s)) = post_disabled s \<and>
           (\<forall>e' c. updateArticle e' c (exec s (addImage e (Some f) uploaded s)) =
                   updateArticle e' c s)"
  using assms
  by (auto simp add: addImage_def exec_Nil exec_Cons js_def post_disabled_frame
        updateArticle_frame)

theorem addImage_upload_failure_witness:
  "is_image \<lparr>file_type = js ''image/png'', file_data = 7\<rparr> \<and>
   res_status \<lparr>res_status = 500, res_result = MediaRef 0, res_error = []\<rparr> \<noteq> 200 \<and>
   addImage new_editor (Some \<lparr>file_type = js ''image/png'', file_data = 7\<rparr>)
     (Resolves \<lparr>res_status = 500, res_result = MediaRef 0, res_error = []\<rparr>)
     (editing (js ''hello'') 0 0) =
     [SetMediaLoading True, UploadMedia \<lparr>file_type = js ''image/png'', file_data = 7\<rparr>,
      SetError (js ''Error uploading image. Please try again.''), SetMediaLoading False] \<and>
   (\<exists>msg. msg \<noteq> [] \<and>
      exec (editing (js ''hello'') 0 0)
        (addImage new_editor (Some \<lparr>file_type = js ''image/png'', file_data = 7\<rparr>)
           (Resolves \<lparr>res_status = 500, res_result = MediaRef 0, res_error = []\<rparr>)
           (editing (js ''hello'') 0 0)) =
      (editing (js ''hello'') 0 0)\<lparr>mediaLoading := False, error := msg\<rparr>)"
proof -
  let ?f = "\<lparr>file_type = js ''image/png'', file_data = 7\<rparr>"
  let ?r = "\<lparr>res_status = 500, res_result = MediaRef 0, res_error = []\<rparr>"
  have img: "is_image ?f"
    by (simp add: is_image_def js_def)
  have fails: "(\<exists>err. Resolves ?r = Rejects err) \<or>
               (\<exists>res. Resolves ?r = Resolves res \<and> res_status res \<noteq> 200)"
    by simp
  have calls: "addImage new_editor (Some ?f) (Resolves ?r) (editing (js ''hello'') 0 0) =
     [SetMediaLoading True, UploadMedia ?f,
      SetError (js ''Error uploading image. Please try again.''), SetMediaLoading False]"
    using img by (simp add: addImage_def)
  from addImage_upload_failure [OF img fails, of new_editor "editing (js ''hello'') 0 0"]
  have "\<exists>msg. msg \<noteq> [] \<and>
      exec (editing (js ''hello'') 0 0)
        (addImage new_editor (Some ?f) (Resolves ?r) (editing (js ''hello'') 0 0)) =
      (editing (js ''hello'') 0 0)\<lparr>mediaLoading := False, error := msg\<rparr>"
    by blast
  with img calls show ?thesis by simp
qed

section \<open>Submission\<close>

text \<open>What each part of \<^verbatim>\<open>updateArticle\<close> calls, and what it leaves of the state.\<close>

lemma status_writes_append: "status_writes (xs @ ys) = status_writes xs @ status_writes ys"
  by (induction xs rule: status_writes.induct) simp_all

lemma points_calls_append: "points_calls (xs @ ys) = points_calls xs @ points_calls ys"
  by (induction xs rule: points_calls.induct) simp_all


lemma awardPoints_calls:
  "points_calls (fst (awardPoints d p fetched)) = [(d, p)]"
  "status_writes (fst (awardPoints d p fetched)) = []"
  "exec s (fst (awardPoints d p fetched)) = s"
  by (simp_all add: awardPoints_def exec_Nil exec_Cons split: outcome.splits)

lemma submit_failed_calls:
  "points_calls (submit_failed err) = []"
  "status_writes (submit_failed err) = (case err of Thrown msg \<Rightarrow> [3, 0] | ThrownNullish \<Rightarrow> [])"
  "error_then_idle (submit_failed err)"
  by (cases err; simp)+

lemma submit_failed_status: "status_writes (submit_failed err) \<in> {[], [3, 0]}"
  by (cases err) simp_all

lemma submit_failed_exec: "\<exists>x st. exec s (submit_failed err) = s\<lparr>error := x, status := st\<rparr>"
proof (cases err)
  case (Thrown msg)
  then have "exec s (submit_failed err) =
      s\<lparr>error := or_else msg (js ''Failed to create post''), status := 0\<rparr>"
    by (simp add: exec_Nil exec_Cons)
  then show ?thesis by blast
next
  case ThrownNullish
  then have "exec s (submit_failed err) = s\<lparr>error := error s, status := status s\<rparr>"
    by (simp add: exec_Nil exec_Cons)
  then show ?thesis by blast
qed

lemma navigate_home_calls:
  "points_calls (navigate_home e c) = []"
  "status_writes (navigate_home e c) \<in> {[], [3, 0]}"
  "error_then_idle (navigate_home e c)"
  "\<exists>x st. exec s (navigate_home e c) = s\<lparr>error := x, status := st\<rparr>"
proof -
  show "points_calls (navigate_home e c) = []"
    by (simp add: navigate_home_def submit_failed_calls split: outcome.splits)
  show "status_writes (navigate_home e c) \<in> {[], [3, 0]}"
    using submit_failed_status
    by (auto simp add: navigate_home_def split: outcome.splits)
  show "error_then_idle (navigate_home e c)"
    by (simp add: navigate_home_def submit_failed_calls split: outcome.splits)
  have same: "s = s\<lparr>error := error s, status := status s\<rparr>" by simp
  show "\<exists>x st. exec s (navigate_home e c) = s\<lparr>error := x, status := st\<rparr>"
  proof (cases "pathname e \<noteq> js ''/''")
    case False
    then have "exec s (navigate_home e c) = s"
      by (simp add: navigate_home_def exec_Nil exec_Cons)
    with same show ?thesis by metis
  next
    case True
    show ?thesis
    proof (cases "replace_res c")
      case (Resolves b)
      with True have "exec s (navigate_home e c) = s"
        by (simp add: navigate_home_def exec_Nil exec_Cons)
      with same show ?thesis by metis
    next
      case (Rejects err)
      with True have "exec s (navigate_home e c) = exec s (submit_failed err)"
        by (simp add: navigate_home_def exec_Cons)
      then show ?thesis using submit_failed_exec [of s err] by simp
    qed
  qed
qed

lemma after_success_calls:
  "points_calls (after_success e c) = []"
  "status_writes (after_success e c) \<in> {[], [3, 0]}"
  "error_then_idle (after_success e c)"
  "\<exists>x st. exec s (after_success e c) = s\<lparr>error := x, status := st\<rparr>"
proof -
  show "points_calls (after_success e c) = []"
    by (simp add: after_success_def submit_failed_calls navigate_home_calls split: outcome.splits)
  show "status_writes (after_success e c) \<in> {[], [3, 0]}"
    using navigate_home_calls(2) [of e c] submit_failed_status
    by (auto simp add: after_success_def split: outcome.splits)
  show "error_then_idle (after_success e c)"
    by (simp add: after_success_def submit_failed_calls navigate_home_calls split: outcome.splits)
  show "\<exists>x st. exec s (after_success e c) = s\<lparr>error := x, status := st\<rparr>"
  proof (cases "onPostCreated e")
    case False
    then show ?thesis
      using navigate_home_calls(4) [of s e c] by (simp add: after_success_def)
  next
    case True
    show ?thesis
    proof (cases "notify_res c")
      case (Resolves u)
      with True show ?thesis
        using navigate_home_calls(4) [of s e c]
        by (simp add: after_success_def exec_Cons)
    next
      case (Rejects err)
      with True have "exec s (after_success e c) = exec s (submit_failed err)"
        by (simp add: after_success_def exec_Cons)
      then show ?thesis using submit_failed_exec [of s err] by simp
    qed
  qed
qed

lemma navigate_home_points_res: "navigate_home e (c\<lparr>points_res := p\<rparr>) = navigate_home e c"
  by (simp add: navigate_home_def)

lemma after_success_points_res: "after_success e (c\<lparr>points_res := p\<rparr>) = after_success e c"
  by (simp add: after_success_def navigate_home_points_res split: outcome.splits)

text \<open>The calls of a submission that passed validation and got status 200.\<close>

lemma updateArticle_success:
  assumes "category s \<noteq> []" and "\<not> blank (title s)" and "\<not> blank (body s)"
    and "submit_res c = Resolves res" and "res_status res = 200"
  shows "updateArticle e c s =
           [SetStatus 1, SetError [],
            (case post e of
               Some p \<Rightarrow> EditPost (stream_id p)
                          \<lparr>c_title = trim (title s), c_body = trim (body s),
                           c_context = category s, c_media = media s\<rparr>
             | None \<Rightarrow> CreatePost
                          \<lparr>c_title = trim (title s), c_body = trim (body s),
                           c_context = category s, c_media = media s\<rparr>)] @
           (case (post e, user e) of
              (None, Some u) \<Rightarrow> fst (awardPoints (did u) (CREATE_POST e) (points_res c))
            | _ \<Rightarrow> []) @
           [SetStatus 2] @ resetForm @ after_success e c"
  using assms by (simp add: updateArticle_def blank_iff_trim Let_def)

lemma resetForm_exec:
  "exec s resetForm = s\<lparr>title := [], body := [], media := [], category := [], error := []\<rparr>"
  by (simp add: resetForm_def exec_Nil exec_Cons)

lemma resetForm_calls:
  "points_calls resetForm = []"
  "status_writes resetForm = []"
  by (simp_all add: resetForm_def)

text \<open>
  C4. For every successful submission (the create or edit call returns status 200), the
  draft fields title, body, media and category are reset to their empty values.
\<close>

theorem updateArticle_success_resets:
  assumes "category s \<noteq> []" and "\<not> blank (title s)" and "\<not> blank (body s)"
    and "submit_res c = Resolves res" and "res_status res = 200"
  shows "submit_calls (updateArticle e c s) \<noteq> [] \<and>
         title (exec s (updateArticle e c s)) = [] \<and>
         body (exec s (updateArticle e c s)) = [] \<and>
         media (exec s (updateArticle e c s)) = [] \<and>
         category (exec s (updateArticle e c s)) = []"
proof -
  note ua = updateArticle_success [OF assms, of e]
  have called: "submit_calls (updateArticle e c s) \<noteq> []"
    by (subst ua) (simp split: option.splits)
  obtain pre where pre: "updateArticle e c s = pre @ resetForm @ after_success e c"
    using ua by (metis append.assoc)
  let ?s1 = "exec (exec s pre) resetForm"
  obtain x st where last: "exec ?s1 (after_success e c) = ?s1\<lparr>error := x, status := st\<rparr>"
    using after_success_calls(4) [of ?s1 e c] by blast
  have "exec s (updateArticle e c s) = ?s1\<lparr>error := x, status := st\<rparr>"
    by (simp add: pre exec_append last)
  then have "title (exec s (updateArticle e c s)) = [] \<and>
         body (exec s (updateArticle e c s)) = [] \<and>
         media (exec s (updateArticle e c s)) = [] \<and>
         category (exec s (updateArticle e c s)) = []"
    by (simp add: resetForm_exec)
  with called show ?thesis by simp
qed

theorem updateArticle_success_resets_witness:
  "category (draft (js ''projects'') (js ''Hello'') (js ''first post'')) \<noteq> [] \<and>
   \<not> blank (title (draft (js ''projects'') (js ''Hello'') (js ''first post''))) \<and>
   \<not> blank (body (draft (js ''projects'') (js ''Hello'') (js ''first post''))) \<and>
   submit_res calls_ok = Resolves \<lparr>res_status = 200, res_result = (), res_error = []\<rparr> \<and>
   title (exec (draft (js ''projects'') (js ''Hello'') (js ''first post''))
            (updateArticle new_editor calls_ok
               (draft (js ''projects'') (js ''Hello'') (js ''first post'')))) = [] \<and>
   body (exec (draft (js ''projects'') (js ''Hello'') (js ''first post''))
            (updateArticle new_editor calls_ok
               (draft (js ''projects'') (js ''Hello'') (js ''first post'')))) = [] \<and>
   media (exec (draft (js ''projects'') (js ''Hello'') (js ''first post''))
            (updateArticle new_editor calls_ok
               (draft (js ''projects'') (js ''Hello'') (js ''first post'')))) = [] \<and>
   category (exec (draft (js ''projects'') (js ''Hello'') (js ''first post''))
            (updateArticle new_editor calls_ok
               (draft (js ''projects'') (js ''Hello'') (js ''first post'')))) = []"
proof -
  let ?s = "draft (js ''projects'') (js ''Hello'') (js ''first post'')"
  have 1: "category ?s \<noteq> []"
    by (simp add: draft_def editing_def js_def)
  have 2: "\<not> blank (title ?s)"
    by (simp add: draft_def editing_def js_def blank_def is_white_space_def)
  have 3: "\<not> blank (body ?s)"
    by (simp add: draft_def editing_def js_def blank_def is_white_space_def)
  have 4: "submit_res calls_ok = Resolves \<lparr>res_status = 200, res_result = (), res_error = []\<rparr>"
    by (simp add: calls_ok_def)
  from updateArticle_success_resets [OF 1 2 3 4, of new_editor] 1 2 3 4
  show ?thesis by simp
qed

text \<open>
  C3. For every successful submission that creates a new post (no existing post) with a
  connected user, the points service is called exactly once, with the identifier of that
  user and the configured point value for post creation; whatever that call gives, also a
  failure, the status shown is the same: the status is set to success, and the calls that
  write the status and the resulting state do not depend on the outcome of the points call.
\<close>

theorem updateArticle_awards_points_once:
  assumes "category s \<noteq> []" and "\<not> blank (title s)" and "\<not> blank (body s)"
    and "post e = None" and "user e = Some u"
    and "submit_res c = Resolves res" and "res_status res = 200"
  shows "points_calls (updateArticle e c s) = [(did u, CREATE_POST e)] \<and>
         take 2 (status_writes (updateArticle e c s)) = [1, 2] \<and>
         status_writes (updateArticle e (c\<lparr>points_res := fetched\<rparr>) s) =
           status_writes (updateArticle e c s) \<and>
         exec s (updateArticle e (c\<lparr>points_res := fetched\<rparr>) s) =
           exec s (updateArticle e c s)"
proof -
  let ?content = "\<lparr>c_title = trim (title s), c_body = trim (body s),
                   c_context = category s, c_media = media s\<rparr>"
  have ua: "updateArticle e c' s =
      [SetStatus 1, SetError [], CreatePost ?content] @
      fst (awardPoints (did u) (CREATE_POST e) (points_res c')) @
      [SetStatus 2] @ resetForm @ after_success e c'"
    if "submit_res c' = Resolves res" for c'
    using updateArticle_success [OF assms(1-3) that assms(7), of e] assms(4,5) by simp
  have 1: "points_calls (updateArticle e c s) = [(did u, CREATE_POST e)]"
    by (simp add: ua [OF assms(6)] points_calls_append awardPoints_calls resetForm_calls
          after_success_calls)
  have sw: "status_writes (updateArticle e c' s) = [1, 2] @ status_writes (after_success e c')"
    if "submit_res c' = Resolves res" for c'
    by (simp add: ua [OF that] status_writes_append awardPoints_calls resetForm_calls)
  have ex: "exec s (updateArticle e c' s) =
      exec (exec (exec s [SetStatus 1, SetError [], CreatePost ?content, SetStatus 2]) resetForm)
        (after_success e c')"
    if "submit_res c' = Resolves res" for c'
    by (simp add: ua [OF that] exec_append awardPoints_calls exec_Cons exec_Nil)
  have c': "submit_res (c\<lparr>points_res := fetched\<rparr>) = Resolves res"
    using assms(6) by simp
  have 2: "take 2 (status_writes (updateArticle e c s)) = [1, 2]"
    by (simp add: sw [OF assms(6)])
  have 3: "status_writes (updateArticle e (c\<lparr>points_res := fetched\<rparr>) s) =
           status_writes (updateArticle e c s)"
    by (simp add: sw [OF assms(6)] sw [OF c'] after_success_points_res)
  have 4: "exec s (updateArticle e (c\<lparr>points_res := fetched\<rparr>) s) =
           exec s (updateArticle e c s)"
    by (simp only: ex [OF assms(6)] ex [OF c'] after_success_points_res)
  from 1 2 3 4 show ?thesis by simp
qed

theorem updateArticle_awards_points_once_witness:
  "category (draft (js ''projects'') (js ''Hello'') (js ''first post'')) \<noteq> [] \<and>
   \<not> blank (title (draft (js ''projects'') (js ''Hello'') (js ''first post''))) \<and>
   \<not> blank (body (draft (js ''projects'') (js ''Hello'') (js ''first post''))) \<and>
   post new_editor = None \<and> user new_editor = Some \<lparr>did = js ''did:pkh:alice''\<rparr> \<and>
   submit_res calls_ok = Resolves \<lparr>res_status = 200, res_result = (), res_error = []\<rparr> \<and>
   points_calls (updateArticle new_editor calls_ok
       (draft (js ''projects'') (js ''Hello'') (js ''first post''))) =
     [(js ''did:pkh:alice'', 10)] \<and>
   status_writes (updateArticle new_editor (calls_ok\<lparr>points_res := Rejects (Thrown (js ''offline''))\<rparr>)
       (draft (js ''projects'') (js ''Hello'') (js ''first post''))) =
     status_writes (updateArticle new_editor calls_ok
       (draft (js ''projects'') (js ''Hello'') (js ''first post''))) \<and>
   exec (draft (js ''projects'') (js ''Hello'') (js ''first post''))
     (updateArticle new_editor (calls_ok\<lparr>points_res := Rejects (Thrown (js ''offline''))\<rparr>)
       (draft (js ''projects'') (js ''Hello'') (js ''first post''))) =
     exec (draft (js ''projects'') (js ''Hello'') (js ''first post''))
       (updateArticle new_editor calls_ok
         (draft (js ''projects'') (js ''Hello'') (js ''first post'')))"
proof -
  let ?s = "draft (js ''projects'') (js ''Hello'') (js ''first post'')"
  have 1: "category ?s \<noteq> []"
    by (simp add: draft_def editing_def js_def)
  have 2: "\<not> blank (title ?s)"
    by (simp add: draft_def editing_def js_def blank_def is_white_space_def)
  have 3: "\<not> blank (body ?s)"
    by (simp add: draft_def editing_def js_def blank_def is_white_space_def)
  have 4: "post new_editor = None"
    by (simp add: new_editor_def)
  have 5: "user new_editor = Some \<lparr>did = js ''did:pkh:alice''\<rparr>"
    by (simp add: new_editor_def)
  have 6: "submit_res calls_ok = Resolves \<lparr>res_status = 200, res_result = (), res_error = []\<rparr>"
    by (simp add: calls_ok_def)
  have 7: "CREATE_POST new_editor = 10"
    by (simp add: new_editor_def)
  from updateArticle_awards_points_once [OF 1 2 3 4 5 6, of "Rejects (Thrown (js ''offline''))"]
    1 2 3 4 5 6 7
  show ?thesis by simp
qed

text \<open>
  C2, as the code has it. The Post button is disabled whenever category, title or body is
  the empty string. A title or body of white space only leaves the button enabled; the
  submission handler then stops at its own check: with an empty category, or a title or
  body that is empty or white space only, it sets an inline error message and makes no
  create or edit call and no change of status.
\<close>

theorem post_requires_fields:
  "(category s = [] \<or> title s = [] \<or> body s = [] \<longrightarrow> post_disabled s) \<and>
   (category s = [] \<or> blank (title s) \<or> blank (body s) \<longrightarrow>
      (\<exists>msg. msg \<noteq> [] \<and> updateArticle e c s = [SetError msg]) \<and>
      submit_calls (updateArticle e c s) = [] \<and>
      status_writes (updateArticle e c s) = [])"
  by (auto simp add: post_disabled_def updateArticle_def blank_iff_trim js_def)

theorem post_requires_fields_witness:
  "body (draft (js ''projects'') (js ''   '') []) = [] \<and>
   blank (title (draft (js ''projects'') (js ''   '') [])) \<and>
   post_disabled (draft (js ''projects'') (js ''   '') []) \<and>
   updateArticle new_editor calls_ok (draft (js ''projects'') (js ''   '') []) =
     [SetError (js ''Please enter a title'')]"
proof -
  let ?s = "draft (js ''projects'') (js ''   '') []"
  have 1: "body ?s = []"
    by (simp add: draft_def editing_def)
  have 2: "blank (title ?s)"
    by (simp add: draft_def editing_def js_def blank_def is_white_space_def)
  have 3: "category ?s \<noteq> []"
    by (simp add: draft_def editing_def js_def)
  have 4: "updateArticle new_editor calls_ok ?s = [SetError (js ''Please enter a title'')]"
    using 2 3 by (simp add: updateArticle_def blank_iff_trim)
  from post_requires_fields [of ?s new_editor calls_ok] 1 2 4
  show ?thesis by simp
qed

text \<open>
  C2 as stated fails: with a category, a body and a title of three spaces the Post button
  is enabled; pressing it runs the handler, which reports the missing title.
\<close>

theorem post_enabled_counterexample:
  "blank (title (draft (js ''projects'') (js ''   '') (js ''text''))) \<and>
   \<not> post_disabled (draft (js ''projects'') (js ''   '') (js ''text'')) \<and>
   handle new_editor (draft (js ''projects'') (js ''   '') (js ''text'')) (ClickPost calls_ok) =
     [SetError (js ''Please enter a title'')]"
proof -
  let ?s = "draft (js ''projects'') (js ''   '') (js ''text'')"
  have 1: "blank (title ?s)"
    by (simp add: draft_def editing_def js_def blank_def is_white_space_def)
  have 2: "\<not> post_disabled ?s"
    by (simp add: post_disabled_def draft_def editing_def init_def new_editor_def js_def)
  have 3: "category ?s \<noteq> []"
    by (simp add: draft_def editing_def js_def)
  have 4: "updateArticle new_editor calls_ok ?s = [SetError (js ''Please enter a title'')]"
    using 1 3 by (simp add: updateArticle_def blank_iff_trim)
  from 1 2 4 show ?thesis by simp
qed

section \<open>The submission status\<close>





lemma segment_length: "length (segment evs) \<le> length evs"
  by (induction evs) auto
















end
